theory Spec2Isabelle
  imports Main "HOL-Library.Word"
begin

section \<open>Exceptions and Python values\<close>

text \<open>
  The exception classes that \<^verbatim>\<open>socket_server.py\<close> raises or catches. An exception
  value carries its class and the text that \<^verbatim>\<open>str(e)\<close> yields.
  \<^verbatim>\<open>socket.error\<close> is \<^verbatim>\<open>OSError\<close>; every other class that the handlers of the
  source do not name is \<open>OtherError\<close>.
\<close>

datatype exn_kind = SocketError | RuntimeError | KeyError | ValueError | OtherError

datatype exn = Exn exn_kind string

fun exn_class :: "exn \<Rightarrow> exn_kind" where
  "exn_class (Exn k m) = k"

fun str_of_exn :: "exn \<Rightarrow> string" where
  "str_of_exn (Exn k m) = m"

type_synonym bytes = "8 word list"

section \<open>Client: the transfer primitives\<close>

text \<open>
  The operating-system socket is outside the repository. It is a parameter of the
  model: a function from the argument of the call and the state of the socket to the
  outcome of the call (an exception or a value) and the next state.
  \<^verbatim>\<open>socket.send\<close> answers with the number of bytes it took,
  \<^verbatim>\<open>socket.recv\<close> with the bytes it read.
\<close>

type_synonym 'sk sock_send = "bytes \<Rightarrow> 'sk \<Rightarrow> (exn + nat) \<times> 'sk"
type_synonym 'sk sock_recv = "int \<Rightarrow> 'sk \<Rightarrow> (exn + bytes) \<times> 'sk"

text \<open>A socket that records every call made on it, with the answer it gave.\<close>

definition logged :: "('q \<Rightarrow> 'sk \<Rightarrow> 'r \<times> 'sk) \<Rightarrow> 'q \<Rightarrow> 'sk \<times> ('q \<times> 'r) list \<Rightarrow> 'r \<times> ('sk \<times> ('q \<times> 'r) list)" where
  "logged f q = (\<lambda>(sk, log). case f q sk of (r, sk') \<Rightarrow> (r, (sk', log @ [(q, r)])))"

definition broken_on_send :: exn where
  "broken_on_send = Exn RuntimeError ''Socket connection broken on send''"

definition broken_on_recv :: exn where
  "broken_on_recv = Exn RuntimeError ''Socket connection broken on recv''"

text \<open>
  The \<^verbatim>\<open>while total_sent < msg_len\<close> loop of \<^verbatim>\<open>Client.send\<close>:
  \<^verbatim>\<open>sent = self.socket.send(bytes[total_sent:])\<close>, a \<^verbatim>\<open>RuntimeError\<close> when
  \<^verbatim>\<open>sent == 0\<close>, otherwise \<^verbatim>\<open>total_sent = total_sent + sent\<close>.
\<close>

function send_loop :: "'sk sock_send \<Rightarrow> bytes \<Rightarrow> nat \<Rightarrow> 'sk \<Rightarrow> (exn + nat) \<times> 'sk" where
  "send_loop ssend bs total_sent sk =
     (if total_sent < length bs then
        (case ssend (drop total_sent bs) sk of
           (Inl e, sk') \<Rightarrow> (Inl e, sk')
         | (Inr sent, sk') \<Rightarrow>
             if sent = 0 then (Inl broken_on_send, sk')
             else send_loop ssend bs (total_sent + sent) sk')
      else (Inr total_sent, sk))"
  by pat_completeness auto
termination
  by (relation "measure (\<lambda>(ssend, bs, total_sent, sk). length bs - total_sent)") auto

declare send_loop.simps [simp del]

text \<open>
  A connection as \<^verbatim>\<open>Client.send\<close> sees it: the socket and the write lock.
  \<^verbatim>\<open>self.send_lock.acquire(timeout=timeout)\<close> is a call into the threading
  library; whether it succeeds depends on the other threads, so its answer is the
  parameter \<open>acquire\<close>, applied to the timeout that the caller passed.
  The \<^verbatim>\<open>finally\<close> clause releases the lock on every way out of the loop.
\<close>

record 'sk channel =
  sock :: 'sk
  send_lock_held :: bool

definition Client_send ::
  "(int \<Rightarrow> bool) \<Rightarrow> 'sk sock_send \<Rightarrow> bytes \<Rightarrow> int \<Rightarrow> 'sk channel \<Rightarrow> (exn + nat) \<times> 'sk channel" where
  "Client_send acquire ssend bs timeout ch =
     (if acquire timeout then
        (case send_loop ssend bs 0 (sock ch) of
           (r, sk') \<Rightarrow> (r, ch\<lparr>sock := sk', send_lock_held := False\<rparr>))
      else (Inr 0, ch))"

text \<open>
  \<^verbatim>\<open>Client.recv\<close>. With \<^verbatim>\<open>fixed\<close> the loop asks the socket for
  \<^verbatim>\<open>min(size - bytes_recd, 2048)\<close> bytes until \<^verbatim>\<open>bytes_recd >= size\<close> and joins
  the chunks; without it there is one read of \<^verbatim>\<open>size\<close> bytes.
\<close>

function recv_loop :: "'sk sock_recv \<Rightarrow> int \<Rightarrow> bytes list \<Rightarrow> int \<Rightarrow> 'sk \<Rightarrow> (exn + bytes) \<times> 'sk" where
  "recv_loop srecv sz chunks bytes_recd sk =
     (if bytes_recd < sz then
        (case srecv (min (sz - bytes_recd) 2048) sk of
           (Inl e, sk') \<Rightarrow> (Inl e, sk')
         | (Inr chunk, sk') \<Rightarrow>
             if chunk = [] then (Inl broken_on_recv, sk')
             else recv_loop srecv sz (chunks @ [chunk]) (bytes_recd + int (length chunk)) sk')
      else (Inr (concat chunks), sk))"
  by pat_completeness auto
termination
  by (relation "measure (\<lambda>(srecv, sz, chunks, bytes_recd, sk). nat (sz - bytes_recd))") auto

declare recv_loop.simps [simp del]

definition Client_recv :: "'sk sock_recv \<Rightarrow> int \<Rightarrow> bool \<Rightarrow> 'sk \<Rightarrow> (exn + bytes) \<times> 'sk" where
  "Client_recv srecv sz fixed sk =
     (if fixed then recv_loop srecv sz [] 0 sk
      else (case srecv sz sk of
              (Inl e, sk') \<Rightarrow> (Inl e, sk')
            | (Inr data, sk') \<Rightarrow>
                if data = [] then (Inl broken_on_recv, sk') else (Inr data, sk')))"


text \<open>
  What the loops above need from the socket: \<^verbatim>\<open>send\<close> never reports more bytes
  than the buffer it was given, \<^verbatim>\<open>recv(n)\<close> never returns more than \<open>n\<close> bytes.
\<close>

definition send_contract :: "'sk sock_send \<Rightarrow> bool" where
  "send_contract ssend =
     (\<forall>buf sk. case fst (ssend buf sk) of Inr n \<Rightarrow> n \<le> length buf | Inl e \<Rightarrow> True)"

definition recv_contract :: "'sk sock_recv \<Rightarrow> bool" where
  "recv_contract srecv =
     (\<forall>n sk. case fst (srecv n sk) of Inr data \<Rightarrow> 0 < n \<longrightarrow> int (length data) \<le> n | Inl e \<Rightarrow> True)"

fun chunk_of :: "int \<times> (exn + bytes) \<Rightarrow> bytes" where
  "chunk_of (n, Inr c) = c"
| "chunk_of (n, Inl e) = []"

text \<open>
  Two sockets to run the primitives on: one that takes at most \<open>room\<close> bytes per
  write, one that hands out at most three of its pending bytes per read.
\<close>

definition demo_send :: "nat sock_send" where
  "demo_send buf room = (Inr (min room (length buf)), room)"

definition demo_recv :: "bytes sock_recv" where
  "demo_recv n pending = (Inr (take (min 3 (nat n)) pending), drop (min 3 (nat n)) pending)"

section \<open>SocketServer: data\<close>

text \<open>
  The values a callback can return, as far as the server looks at them: the server
  tests \<^verbatim>\<open>value is True\<close> and otherwise passes the value on as the reason.
\<close>

datatype pyval = PyNone | PyBool bool | PyInt int | PyStr string

text \<open>
  A socket object, as far as \<^verbatim>\<open>shutdown\<close> and \<^verbatim>\<open>close\<close> see it:
  \<^verbatim>\<open>shutdown\<close> raises \<^verbatim>\<open>socket.error\<close> on a socket that is not connected
  or already closed; \<^verbatim>\<open>close\<close> never raises.
\<close>

datatype sock_state = SockReady | SockNotConn | SockClosed

definition sock_shutdown :: "sock_state \<Rightarrow> exn + sock_state" where
  "sock_shutdown s =
     (case s of
        SockReady \<Rightarrow> Inr SockNotConn
      | SockNotConn \<Rightarrow> Inl (Exn SocketError ''[Errno 107] Transport endpoint is not connected'')
      | SockClosed \<Rightarrow> Inl (Exn SocketError ''[Errno 9] Bad file descriptor''))"

text \<open>The fields of \<^verbatim>\<open>Client\<close>; \<open>send_lock\<close> is true while the lock is held.\<close>

record client =
  socket :: sock_state
  address :: string
  send_lock :: bool
  closed :: bool
  accepted :: bool
  close_handled :: bool

definition Client_init :: "sock_state \<Rightarrow> string \<Rightarrow> client" where
  "Client_init sk addr =
     \<lparr>socket = sk, address = addr, send_lock = False, closed = False, accepted = False,
      close_handled = False\<rparr>"

text \<open>
  \<^verbatim>\<open>Client.close\<close>: the \<^verbatim>\<open>socket.error\<close> of \<^verbatim>\<open>shutdown\<close> is swallowed, then
  the socket is closed and \<^verbatim>\<open>closed\<close> set.
\<close>

definition Client_close :: "client \<Rightarrow> client" where
  "Client_close c =
     (let c1 = (case sock_shutdown (socket c) of Inl e \<Rightarrow> c | Inr s \<Rightarrow> c\<lparr>socket := s\<rparr>)
      in c1\<lparr>socket := SockClosed, closed := True\<rparr>)"

text \<open>
  \<^verbatim>\<open>Client\<close> objects are compared by identity (\<^verbatim>\<open>client in self.clients\<close>, the
  selector's key), so the server state holds identities and a store from identities to
  objects.

  The selector class is the constructor's parameter \<^verbatim>\<open>selector\<close>, by default
  \<^verbatim>\<open>selectors.EpollSelector\<close> of the standard library, outside the repository. The
  model keeps the set of registered objects and the failures of the standard selectors.
  They look an object up by \<^verbatim>\<open>fileno()\<close>, which \<^verbatim>\<open>Client.fileno\<close> takes from
  the socket and which is -1 once the socket is closed; for an invalid descriptor they
  search the registered objects for the object itself, and raise \<^verbatim>\<open>ValueError\<close>
  when it is not among them. So registering a registered object raises
  \<^verbatim>\<open>KeyError\<close>, unregistering an object that is not registered raises
  \<^verbatim>\<open>KeyError\<close> while its socket is open and \<^verbatim>\<open>ValueError\<close> once it is closed,
  and registering an unregistered object with a closed socket raises
  \<^verbatim>\<open>ValueError\<close>. Descriptor numbers are not modelled: an open socket is taken
  to have a descriptor of its own.
\<close>

type_synonym cid = nat

record server =
  clients :: "cid list"
  recv_selector :: "cid set"
  objects :: "cid \<Rightarrow> client"

definition Client_fileno_valid :: "client \<Rightarrow> bool" where
  "Client_fileno_valid cl = (socket cl \<noteq> SockClosed)"

definition selector_register :: "cid \<Rightarrow> client \<Rightarrow> cid set \<Rightarrow> exn + cid set" where
  "selector_register c cl S =
     (if c \<in> S then Inl (Exn KeyError ''already registered'')
      else if Client_fileno_valid cl then Inr (insert c S)
      else Inl (Exn ValueError ''Invalid file descriptor: -1''))"

definition selector_unregister :: "cid \<Rightarrow> client \<Rightarrow> cid set \<Rightarrow> exn + cid set" where
  "selector_unregister c cl S =
     (if c \<in> S then Inr (S - {c})
      else if Client_fileno_valid cl then Inl (Exn KeyError ''is not registered'')
      else Inl (Exn ValueError ''Invalid file descriptor: -1''))"

text \<open>
  The three callbacks are user code: each may change the server's state (close a
  client, say), and each either returns a value or raises.
\<close>

record callbacks =
  handle_readable :: "cid \<Rightarrow> server \<Rightarrow> (exn + pyval) \<times> server"
  handle_incoming :: "cid \<Rightarrow> server \<Rightarrow> (exn + pyval) \<times> server"
  handle_closed :: "cid \<Rightarrow> pyval \<Rightarrow> server \<Rightarrow> (exn + pyval) \<times> server"

text \<open>The defaults of \<^verbatim>\<open>SocketServer.__init__\<close>: three lambdas that return \<^verbatim>\<open>True\<close>.\<close>

definition default_callbacks :: callbacks where
  "default_callbacks =
     \<lparr>handle_readable = (\<lambda>c s. (Inr (PyBool True), s)),
      handle_incoming = (\<lambda>c s. (Inr (PyBool True), s)),
      handle_closed = (\<lambda>c reason s. (Inr (PyBool True), s))\<rparr>"

text \<open>
  The jobs handed to the thread limiter, the two dispatch loops, and the calls that
  the server makes, recorded in the order in which it makes them.
\<close>

datatype job = HandleAccepted cid | HandleReadable cid

datatype loop = AcceptLoop | PollLoop

datatype event =
    EvUnregister cid
  | EvRegister cid
  | EvClose cid
  | EvRemove cid
  | EvHandleClosed cid pyval
  | EvHandleIncoming cid
  | EvHandleReadable cid
  | EvStartThread job
  | EvSendStopSignal loop
  | EvLoopStop loop
  | EvServerShutdown
  | EvServerClose

record world =
  srv :: server
  server_socket :: sock_state
  jobs :: "job list"
  trace :: "event list"

definition emit :: "event \<Rightarrow> world \<Rightarrow> world" where
  "emit e w = w\<lparr>trace := trace w @ [e]\<rparr>"

definition with_srv :: "world \<Rightarrow> server \<Rightarrow> world" where
  "with_srv w s = w\<lparr>srv := s\<rparr>"

section \<open>SocketServer: operations\<close>

text \<open>
  The \<^verbatim>\<open>Log\<close> decorator calls the method and re-raises what it raises; the value
  of the method is dropped, so each decorated method returns \<^verbatim>\<open>None\<close>.

  \<^verbatim>\<open>register\<close> and \<^verbatim>\<open>unregister\<close>: the handler is \<^verbatim>\<open>except KeyError\<close>.
  The selector's \<^verbatim>\<open>KeyError\<close> is replaced by
  \<^verbatim>\<open>KeyError('Client already registered')\<close> (in both methods) unless
  \<^verbatim>\<open>silent\<close> is set; any other exception of the selector leaves the method.
\<close>

definition register :: "cid \<Rightarrow> bool \<Rightarrow> world \<Rightarrow> (exn + unit) \<times> world" where
  "register c silent w =
     (let w1 = emit (EvRegister c) w in
      case selector_register c (objects (srv w1) c) (recv_selector (srv w1)) of
        Inr S \<Rightarrow> (Inr (), with_srv w1 ((srv w1)\<lparr>recv_selector := S\<rparr>))
      | Inl e \<Rightarrow>
          if exn_class e = KeyError then
            (if \<not> silent then (Inl (Exn KeyError ''Client already registered''), w1)
             else (Inr (), w1))
          else (Inl e, w1))"

definition unregister :: "cid \<Rightarrow> bool \<Rightarrow> world \<Rightarrow> (exn + unit) \<times> world" where
  "unregister c silent w =
     (let w1 = emit (EvUnregister c) w in
      case selector_unregister c (objects (srv w1) c) (recv_selector (srv w1)) of
        Inr S \<Rightarrow> (Inr (), with_srv w1 ((srv w1)\<lparr>recv_selector := S\<rparr>))
      | Inl e \<Rightarrow>
          if exn_class e = KeyError then
            (if \<not> silent then (Inl (Exn KeyError ''Client already registered''), w1)
             else (Inr (), w1))
          else (Inl e, w1))"

text \<open>
  The argument of \<^verbatim>\<open>disconnect\<close>: one client, an iterable of such arguments, or
  the registry \<^verbatim>\<open>self.clients\<close> itself. For the registry
  \<^verbatim>\<open>client == self.clients\<close> holds and the loop runs over
  \<^verbatim>\<open>self.clients.copy()\<close>, the registry as it is at that moment. Any other
  iterable is not touched by the calls made in the loop.
\<close>

datatype target = Single cid | Many "target list" | Registry

definition close_client :: "cid \<Rightarrow> world \<Rightarrow> world" where
  "close_client c w =
     (let w1 = emit (EvClose c) w; s = srv w1
      in with_srv w1 (s\<lparr>objects := (objects s)(c := Client_close (objects s c))\<rparr>))"

definition remove_client :: "cid \<Rightarrow> world \<Rightarrow> world" where
  "remove_client c w =
     (if c \<in> set (clients (srv w)) then
        (let w1 = emit (EvRemove c) w; s = srv w1
         in with_srv w1 (s\<lparr>clients := remove1 c (clients s)\<rparr>))
      else w)"

definition call_handle_closed :: "callbacks \<Rightarrow> cid \<Rightarrow> pyval \<Rightarrow> world \<Rightarrow> (exn + unit) \<times> world" where
  "call_handle_closed cb c reason w =
     (let w1 = emit (EvHandleClosed c reason) w in
      case handle_closed cb c reason (srv w1) of
        (Inl e, s') \<Rightarrow> (Inl e, with_srv w1 s')
      | (Inr v, s') \<Rightarrow> (Inr (), with_srv w1 s'))"

definition disconnect_one :: "callbacks \<Rightarrow> cid \<Rightarrow> pyval \<Rightarrow> world \<Rightarrow> (exn + unit) \<times> world" where
  "disconnect_one cb c reason w =
     (case unregister c True w of
        (Inl e, w1) \<Rightarrow> (Inl e, w1)
      | (Inr u, w1) \<Rightarrow> call_handle_closed cb c reason (remove_client c (close_client c w1)))"

fun for_each :: "('a \<Rightarrow> world \<Rightarrow> (exn + unit) \<times> world) \<Rightarrow> 'a list \<Rightarrow> world \<Rightarrow> (exn + unit) \<times> world" where
  "for_each body [] w = (Inr (), w)"
| "for_each body (x # xs) w =
     (case body x w of
        (Inl e, w') \<Rightarrow> (Inl e, w')
      | (Inr u, w') \<Rightarrow> for_each body xs w')"


text \<open>
  \<^verbatim>\<open>SocketServer.disconnect\<close>. The parameter \<^verbatim>\<open>how\<close> is never used by the
  source and is left out. \<open>disconnect_one\<close> above is the \<^verbatim>\<open>else\<close> branch; the
  elements of the registry are \<^verbatim>\<open>Client\<close> objects, so the recursive calls of
  the loop over its copy take that branch.
\<close>

fun disconnect :: "callbacks \<Rightarrow> target \<Rightarrow> pyval \<Rightarrow> world \<Rightarrow> (exn + unit) \<times> world"
  and disconnect_each :: "callbacks \<Rightarrow> target list \<Rightarrow> pyval \<Rightarrow> world \<Rightarrow> (exn + unit) \<times> world" where
  "disconnect cb (Single c) reason w = disconnect_one cb c reason w"
| "disconnect cb (Many ts) reason w = disconnect_each cb ts reason w"
| "disconnect cb Registry reason w =
     for_each (\<lambda>c. disconnect_one cb c reason) (clients (srv w)) w"
| "disconnect_each cb [] reason w = (Inr (), w)"
| "disconnect_each cb (t # ts) reason w =
     (case disconnect cb t reason w of
        (Inl e, w') \<Rightarrow> (Inl e, w')
      | (Inr u, w') \<Rightarrow> disconnect_each cb ts reason w')"

text \<open>
  The handlers of both worker bodies are \<^verbatim>\<open>except (socket.error, RuntimeError)\<close>.
\<close>

definition caught_by_handshake :: "exn \<Rightarrow> bool" where
  "caught_by_handshake e = (exn_class e = SocketError \<or> exn_class e = RuntimeError)"

definition set_accepted :: "cid \<Rightarrow> world \<Rightarrow> world" where
  "set_accepted c w =
     (let s = srv w in with_srv w (s\<lparr>objects := (objects s)(c := (objects s c)\<lparr>accepted := True\<rparr>)\<rparr>))"

definition subthread_handle_accepted :: "callbacks \<Rightarrow> cid \<Rightarrow> world \<Rightarrow> (exn + unit) \<times> world" where
  "subthread_handle_accepted cb c w =
     (let w0 = emit (EvHandleIncoming c) w in
      case handle_incoming cb c (srv w0) of
        (Inl e, s1) \<Rightarrow>
          if caught_by_handshake e then disconnect cb (Single c) (PyStr (str_of_exn e)) (with_srv w0 s1)
          else (Inl e, with_srv w0 s1)
      | (Inr v, s1) \<Rightarrow>
          if v = PyBool True \<and> \<not> closed (objects s1 c)
          then register c False (set_accepted c (with_srv w0 s1))
          else disconnect cb (Single c) v (with_srv w0 s1))"

definition subthread_handle_readable :: "callbacks \<Rightarrow> cid \<Rightarrow> world \<Rightarrow> (exn + unit) \<times> world" where
  "subthread_handle_readable cb c w =
     (let w0 = emit (EvHandleReadable c) w in
      case handle_readable cb c (srv w0) of
        (Inl e, s1) \<Rightarrow>
          if caught_by_handshake e then disconnect cb (Single c) (PyStr (str_of_exn e)) (with_srv w0 s1)
          else (Inl e, with_srv w0 s1)
      | (Inr v, s1) \<Rightarrow>
          if v = PyBool True \<and> \<not> closed (objects s1 c)
          then register c False (with_srv w0 s1)
          else disconnect cb (Single c) v (with_srv w0 s1))"

text \<open>
  \<^verbatim>\<open>self._threads_limiter.start_thread(target=..., args=...)\<close> hands a job to the
  thread limiter, which is outside the repository; the job is in flight until a worker
  has run it to its end.
\<close>

definition start_thread :: "job \<Rightarrow> world \<Rightarrow> world" where
  "start_thread j w = (emit (EvStartThread j) w)\<lparr>jobs := jobs w @ [j]\<rparr>"

text \<open>
  \<^verbatim>\<open>_mainthread_poll_readable\<close>, after \<^verbatim>\<open>select\<close> has answered with
  \<open>events\<close>, a list of objects and masks. \<^verbatim>\<open>selectors.EVENT_READ\<close> is 1. The
  loop calls the selector's \<^verbatim>\<open>unregister\<close> directly, so none of its exceptions
  is caught.
\<close>

definition EVENT_READ :: nat where
  "EVENT_READ = 1"

definition poll_unregister :: "cid \<Rightarrow> world \<Rightarrow> (exn + unit) \<times> world" where
  "poll_unregister c w =
     (let w1 = emit (EvUnregister c) w in
      case selector_unregister c (objects (srv w1) c) (recv_selector (srv w1)) of
        Inl e \<Rightarrow> (Inl e, w1)
      | Inr S \<Rightarrow> (Inr (), with_srv w1 ((srv w1)\<lparr>recv_selector := S\<rparr>)))"

definition poll_one :: "cid \<times> nat \<Rightarrow> world \<Rightarrow> (exn + unit) \<times> world" where
  "poll_one ev w =
     (case ev of (c, msk) \<Rightarrow>
        if msk = EVENT_READ then
          (case poll_unregister c w of
             (Inl e, w1) \<Rightarrow> (Inl e, w1)
           | (Inr u, w1) \<Rightarrow> (Inr (), start_thread (HandleReadable c) w1))
        else (Inr (), w))"

definition mainthread_poll_readable :: "(cid \<times> nat) list \<Rightarrow> world \<Rightarrow> (exn + unit) \<times> world" where
  "mainthread_poll_readable events w = for_each poll_one events w"


text \<open>
  \<^verbatim>\<open>SocketServer.stop\<close>. The two loop objects come from the package
  \<^verbatim>\<open>loopfunction\<close>, outside the repository; they are called with
  \<^verbatim>\<open>silent=True\<close> and are taken not to raise. \<^verbatim>\<open>shutdown\<close> of the listening
  socket is not guarded, so its \<^verbatim>\<open>socket.error\<close> leaves \<^verbatim>\<open>stop\<close>.
\<close>

definition stop_loops :: "world \<Rightarrow> world" where
  "stop_loops w =
     emit (EvLoopStop PollLoop) (emit (EvLoopStop AcceptLoop)
       (emit (EvSendStopSignal PollLoop) (emit (EvSendStopSignal AcceptLoop) w)))"

definition stop :: "callbacks \<Rightarrow> world \<Rightarrow> (exn + unit) \<times> world" where
  "stop cb w =
     (case disconnect cb Registry (PyStr ''Server shutting down'') w of
        (Inl e, w1) \<Rightarrow> (Inl e, w1)
      | (Inr u, w1) \<Rightarrow>
          (let w2 = emit EvServerShutdown (stop_loops w1) in
           case sock_shutdown (server_socket w2) of
             Inl e \<Rightarrow> (Inl e, w2)
           | Inr sk \<Rightarrow> (Inr (), (emit EvServerClose w2)\<lparr>server_socket := SockClosed\<rparr>)))"

text \<open>How often \<^verbatim>\<open>handle_closed\<close> has been called for a client, and with what.\<close>

fun closed_reason :: "cid \<Rightarrow> event \<Rightarrow> pyval option" where
  "closed_reason c (EvHandleClosed c' reason) = (if c' = c then Some reason else None)"
| "closed_reason c e = None"

definition closed_calls :: "cid \<Rightarrow> event list \<Rightarrow> pyval list" where
  "closed_calls c tr = List.map_filter (closed_reason c) tr"


section \<open>Auxiliary notions for the properties\<close>

text \<open>
  The state in which \<^verbatim>\<open>disconnect\<close> calls \<^verbatim>\<open>handle_closed\<close> for one client, and
  the calls it has made up to and including that one.
\<close>

definition after_cleanup :: "cid \<Rightarrow> server \<Rightarrow> server" where
  "after_cleanup c s =
     s\<lparr>recv_selector := recv_selector s - {c},
       objects := (objects s)(c := Client_close (objects s c)),
       clients := remove1 c (clients s)\<rparr>"

definition cleanup_events :: "cid \<Rightarrow> pyval \<Rightarrow> server \<Rightarrow> event list" where
  "cleanup_events c reason s =
     [EvUnregister c, EvClose c] @ (if c \<in> set (clients s) then [EvRemove c] else [])
       @ [EvHandleClosed c reason]"




text \<open>A server with three accepted, registered connections, to run the operations on.\<close>

definition demo_server :: server where
  "demo_server =
     \<lparr>clients = [0, 1, 2], recv_selector = {0, 1, 2},
      objects = (\<lambda>c. (Client_init SockReady ''peer'')\<lparr>accepted := True\<rparr>)\<rparr>"

definition demo_world :: world where
  "demo_world = \<lparr>srv = demo_server, server_socket = SockReady, jobs = [], trace = []\<rparr>"

text \<open>Callbacks that raise: a \<^verbatim>\<open>ValueError\<close>, and a \<^verbatim>\<open>RuntimeError\<close>.\<close>

definition raising_callbacks :: "exn \<Rightarrow> callbacks" where
  "raising_callbacks e =
     default_callbacks\<lparr>handle_incoming := (\<lambda>c s. (Inl e, s)), handle_readable := (\<lambda>c s. (Inl e, s))\<rparr>"

text \<open>Callbacks that return a given value.\<close>

definition returning_callbacks :: "pyval \<Rightarrow> callbacks" where
  "returning_callbacks v =
     default_callbacks\<lparr>handle_incoming := (\<lambda>c s. (Inr v, s)), handle_readable := (\<lambda>c s. (Inr v, s))\<rparr>"

text \<open>
  The selector can look a client up: the client is registered, or its socket is open.
\<close>

definition selector_finds :: "cid \<Rightarrow> server \<Rightarrow> bool" where
  "selector_finds c s = (c \<in> recv_selector s \<or> Client_fileno_valid (objects s c))"



section \<open>Two threads in \<^verbatim>\<open>disconnect\<close>\<close>

text \<open>
  The \<^verbatim>\<open>else\<close> branch of \<^verbatim>\<open>disconnect\<close> is four statements: the silent
  \<^verbatim>\<open>unregister\<close>, \<^verbatim>\<open>client.close()\<close>, the conditional removal from the
  registry, and the call of \<^verbatim>\<open>handle_closed\<close>. No lock is held across them, so
  another thread can run between any two. A thread that has called
  \<^verbatim>\<open>disconnect(client, reason)\<close> is its arguments, the statements it still has to
  run, and the exception that ended it, if any.
\<close>

datatype disconnect_stmt = StUnregister | StClose | StRemove | StNotify

fun exec_stmt :: "callbacks \<Rightarrow> cid \<Rightarrow> pyval \<Rightarrow> disconnect_stmt \<Rightarrow> world \<Rightarrow> (exn + unit) \<times> world" where
  "exec_stmt cb c reason StUnregister w = unregister c True w"
| "exec_stmt cb c reason StClose w = (Inr (), close_client c w)"
| "exec_stmt cb c reason StRemove w = (Inr (), remove_client c w)"
| "exec_stmt cb c reason StNotify w = call_handle_closed cb c reason w"

fun run_stmts :: "callbacks \<Rightarrow> cid \<Rightarrow> pyval \<Rightarrow> disconnect_stmt list \<Rightarrow> world \<Rightarrow> (exn + unit) \<times> world" where
  "run_stmts cb c reason [] w = (Inr (), w)"
| "run_stmts cb c reason (st # sts) w =
     (case exec_stmt cb c reason st w of
        (Inl e, w') \<Rightarrow> (Inl e, w')
      | (Inr u, w') \<Rightarrow> run_stmts cb c reason sts w')"

definition disconnect_body :: "disconnect_stmt list" where
  "disconnect_body = [StUnregister, StClose, StRemove, StNotify]"

record thread =
  th_client :: cid
  th_reason :: pyval
  th_todo :: "disconnect_stmt list"
  th_raised :: "exn option"

definition calls_disconnect :: "cid \<Rightarrow> pyval \<Rightarrow> thread" where
  "calls_disconnect c reason =
     \<lparr>th_client = c, th_reason = reason, th_todo = disconnect_body, th_raised = None\<rparr>"

definition thread_step :: "callbacks \<Rightarrow> thread \<Rightarrow> world \<Rightarrow> thread \<times> world" where
  "thread_step cb th w =
     (case th_todo th of
        [] \<Rightarrow> (th, w)
      | st # rest \<Rightarrow>
          (case exec_stmt cb (th_client th) (th_reason th) st w of
             (Inl e, w') \<Rightarrow> (th\<lparr>th_todo := [], th_raised := Some e\<rparr>, w')
           | (Inr u, w') \<Rightarrow> (th\<lparr>th_todo := rest\<rparr>, w')))"

datatype tid = ThreadA | ThreadB

fun interleave :: "callbacks \<Rightarrow> tid list \<Rightarrow> thread \<times> thread \<Rightarrow> world \<Rightarrow> (thread \<times> thread) \<times> world" where
  "interleave cb [] ths w = (ths, w)"
| "interleave cb (ThreadA # sched) (a, b) w =
     (case thread_step cb a w of (a', w') \<Rightarrow> interleave cb sched (a', b) w')"
| "interleave cb (ThreadB # sched) (a, b) w =
     (case thread_step cb b w of (b', w') \<Rightarrow> interleave cb sched (a, b') w')"

section \<open>The dispatch loops and the workers, interleaved\<close>

















section \<open>Properties of the transfer primitives\<close>

lemma send_contractD: "send_contract f \<Longrightarrow> f buf sk = (Inr n, sk') \<Longrightarrow> n \<le> length buf"
  unfolding send_contract_def by (metis fst_conv sum.simps(6))

lemma logged_eq: "logged f q (sk, log) = (r, st') \<longleftrightarrow> (\<exists>sk'. f q sk = (r, sk') \<and> st' = (sk', log @ [(q, r)]))"
  by (auto simp: logged_def split: prod.splits)

lemma send_contract_logged: "send_contract f \<Longrightarrow> send_contract (logged f)"
  unfolding send_contract_def
  by (auto simp: logged_def split: prod.splits sum.splits) (metis fst_conv sum.simps(6))

lemma send_loop_total:
  "send_contract f \<Longrightarrow> t \<le> length bs \<Longrightarrow> send_loop f bs t sk = (Inr n, sk') \<Longrightarrow> n = length bs"
proof (induction f bs t sk rule: send_loop.induct)
  case (1 ssend bs total_sent sk)
  show ?case
  proof (cases "total_sent < length bs")
    case False
    with "1.prems" show ?thesis by (simp add: send_loop.simps)
  next
    case True
    obtain a sk1 where a: "ssend (drop total_sent bs) sk = (a, sk1)" by (cases "ssend (drop total_sent bs) sk")
    show ?thesis
    proof (cases a)
      case (Inl e)
      with True a "1.prems"(3) show ?thesis by (simp add: send_loop.simps)
    next
      case (Inr sent)
      have le: "sent \<le> length (drop total_sent bs)" using send_contractD[OF "1.prems"(1)] a Inr by blast
      show ?thesis
      proof (cases "sent = 0")
        case True
        with \<open>total_sent < length bs\<close> a Inr "1.prems"(3) show ?thesis by (simp add: send_loop.simps)
      next
        case False
        have "send_loop ssend bs (total_sent + sent) sk1 = (Inr n, sk')"
          using \<open>total_sent < length bs\<close> a Inr False "1.prems"(3) by (simp add: send_loop.simps)
        moreover have "total_sent + sent \<le> length bs" using le True by simp
        ultimately show ?thesis using "1.IH"[OF True a[symmetric] Inr False "1.prems"(1)] by blast
      qed
    qed
  qed
qed

lemma send_loop_zero_raises:
  "\<forall>q. (q, Inr 0) \<notin> set log \<Longrightarrow> send_loop (logged f) bs t (sk, log) = (r, (sk', log')) \<Longrightarrow>
   (\<exists>q. (q, Inr 0) \<in> set log') \<Longrightarrow> r = Inl broken_on_send"
proof (induction "logged f" bs t "(sk, log)" arbitrary: sk log rule: send_loop.induct)
  case (1 bs total_sent sk log)
  show ?case
  proof (cases "total_sent < length bs")
    case False
    with "1.prems" show ?thesis by (simp add: send_loop.simps)
  next
    case True
    obtain a sk1 where a: "f (drop total_sent bs) sk = (a, sk1)" by (cases "f (drop total_sent bs) sk")
    then have la: "logged f (drop total_sent bs) (sk, log) = (a, (sk1, log @ [(drop total_sent bs, a)]))"
      by (simp add: logged_def)
    show ?thesis
    proof (cases a)
      case (Inl e)
      with True la "1.prems" show ?thesis by (auto simp add: send_loop.simps)
    next
      case (Inr sent)
      show ?thesis
      proof (cases "sent = 0")
        case True
        with \<open>total_sent < length bs\<close> la Inr "1.prems"(2) show ?thesis by (simp add: send_loop.simps)
      next
        case False
        have run: "send_loop (logged f) bs (total_sent + sent) (sk1, log @ [(drop total_sent bs, a)]) = (r, (sk', log'))"
          using \<open>total_sent < length bs\<close> la Inr False "1.prems"(2) by (simp add: send_loop.simps)
        have pre: "\<forall>q. (q, Inr 0) \<notin> set (log @ [(drop total_sent bs, a)])"
          using "1.prems"(1) Inr False by auto
        show ?thesis
          using "1.hyps"[OF True la[symmetric] Inr False pre run "1.prems"(3)] .
      qed
    qed
  qed
qed

lemma recv_contractD: "recv_contract f \<Longrightarrow> f n sk = (Inr d, sk') \<Longrightarrow> 0 < n \<Longrightarrow> int (length d) \<le> n"
  unfolding recv_contract_def by (metis fst_conv sum.simps(6))

lemma recv_contract_logged: "recv_contract f \<Longrightarrow> recv_contract (logged f)"
  unfolding recv_contract_def
  by (auto simp: logged_def split: prod.splits sum.splits) (metis fst_conv sum.simps(6))

lemma recv_loop_unfold_stop: "\<not> recd < sz \<Longrightarrow> recv_loop f sz chunks recd sk = (Inr (concat chunks), sk)"
  by (simp add: recv_loop.simps)

lemma recv_loop_unfold_exn:
  "recd < sz \<Longrightarrow> f (min (sz - recd) 2048) sk = (Inl e, sk1) \<Longrightarrow> recv_loop f sz chunks recd sk = (Inl e, sk1)"
  by (simp add: recv_loop.simps)

lemma recv_loop_unfold_empty:
  "recd < sz \<Longrightarrow> f (min (sz - recd) 2048) sk = (Inr [], sk1) \<Longrightarrow> recv_loop f sz chunks recd sk = (Inl broken_on_recv, sk1)"
  by (simp add: recv_loop.simps)

lemma recv_loop_unfold_chunk:
  "recd < sz \<Longrightarrow> f (min (sz - recd) 2048) sk = (Inr c, sk1) \<Longrightarrow> c \<noteq> [] \<Longrightarrow>
   recv_loop f sz chunks recd sk = recv_loop f sz (chunks @ [c]) (recd + int (length c)) sk1"
  by (simp add: recv_loop.simps)

lemma recv_loop_cases:
  assumes "recv_loop f sz chunks recd sk = (r, sk')"
  obtains (stop) "\<not> recd < sz" "r = Inr (concat chunks)" "sk' = sk"
  | (exn) e where "recd < sz" "f (min (sz - recd) 2048) sk = (Inl e, sk')" "r = Inl e"
  | (empty) "recd < sz" "f (min (sz - recd) 2048) sk = (Inr [], sk')" "r = Inl broken_on_recv"
  | (chunk) c sk1 where "recd < sz" "f (min (sz - recd) 2048) sk = (Inr c, sk1)" "c \<noteq> []"
      "recv_loop f sz (chunks @ [c]) (recd + int (length c)) sk1 = (r, sk')"
proof (cases "recd < sz")
  case False
  with assms stop show ?thesis by (simp add: recv_loop.simps)
next
  case True
  obtain a sk1 where a: "f (min (sz - recd) 2048) sk = (a, sk1)" by (cases "f (min (sz - recd) 2048) sk")
  show ?thesis
  proof (cases a)
    case (Inl e)
    with True a assms exn show ?thesis by (auto simp add: recv_loop.simps)
  next
    case (Inr c)
    show ?thesis
    proof (cases "c = []")
      case True
      with \<open>recd < sz\<close> a Inr assms empty show ?thesis by (auto simp add: recv_loop.simps)
    next
      case False
      with \<open>recd < sz\<close> a Inr assms chunk show ?thesis by (auto simp add: recv_loop.simps)
    qed
  qed
qed

lemma recv_loop_exact:
  "recv_contract f \<Longrightarrow> recd = int (length (concat chunks)) \<Longrightarrow> recd \<le> max 0 sz \<Longrightarrow>
   recv_loop f sz chunks recd sk = (Inr d, sk') \<Longrightarrow> int (length d) = max 0 sz"
proof (induction f sz chunks recd sk rule: recv_loop.induct)
  case (1 srecv sz chunks bytes_recd sk)
  from "1.prems"(4) show ?case
  proof (cases rule: recv_loop_cases)
    case stop
    with "1.prems" show ?thesis by auto
  next
    case (chunk c sk1)
    have le: "int (length c) \<le> min (sz - bytes_recd) 2048"
      using recv_contractD[OF "1.prems"(1) chunk(2)] chunk(1) by simp
    show ?thesis
      using "1.IH"[OF chunk(1) chunk(2)[symmetric] refl chunk(3) "1.prems"(1) _ _ chunk(4)]
        "1.prems"(2) le chunk(1) by simp
  qed simp_all
qed

lemma recv_loop_log:
  "\<forall>(n, a) \<in> set log. 1 \<le> n \<and> n \<le> 2048 \<and> (\<exists>c. a = Inr c \<and> c \<noteq> []) \<Longrightarrow>
   concat chunks = concat (map chunk_of log) \<Longrightarrow>
   recv_loop (logged f) sz chunks recd (sk, log) = (r, (sk', log')) \<Longrightarrow>
   (\<forall>(n, a) \<in> set log'. 1 \<le> n \<and> n \<le> 2048)
   \<and> ((\<exists>n. (n, Inr []) \<in> set log') \<longrightarrow> r = Inl broken_on_recv)
   \<and> (\<forall>d. r = Inr d \<longrightarrow> d = concat (map chunk_of log'))"
proof (induction "logged f" sz chunks recd "(sk, log)" arbitrary: sk log rule: recv_loop.induct)
  case (1 sz chunks bytes_recd sk log)
  let ?q = "min (sz - bytes_recd) 2048"
  from "1.prems"(3) show ?case
  proof (cases rule: recv_loop_cases)
    case stop
    with "1.prems"(1,2) show ?thesis by fastforce
  next
    case (exn e)
    then have "log' = log @ [(?q, Inl e)]" by (auto simp: logged_eq)
    with exn "1.prems"(1) show ?thesis by fastforce
  next
    case empty
    then have "log' = log @ [(?q, Inr [])]" by (auto simp: logged_eq)
    with empty "1.prems"(1) show ?thesis by fastforce
  next
    case (chunk c st1)
    then obtain sk1 where st1: "st1 = (sk1, log @ [(?q, Inr c)])" by (auto simp: logged_eq)
    have pre: "\<forall>(n, a) \<in> set (log @ [(?q, Inr c)]). 1 \<le> n \<and> n \<le> 2048 \<and> (\<exists>c. a = Inr c \<and> c \<noteq> [])"
      using "1.prems"(1) chunk(1,3) by auto
    have cc: "concat (chunks @ [c]) = concat (map chunk_of (log @ [(?q, Inr c)]))"
      using "1.prems"(2) by simp
    show ?thesis
      using "1.hyps"[OF chunk(1) chunk(2)[symmetric, unfolded st1] refl chunk(3) pre cc chunk(4)[unfolded st1]] .
  qed
qed

text \<open>
  Claim C6. For every size, \<^verbatim>\<open>Client.recv(size, fixed=True)\<close> on a socket that never
  returns more than it was asked for: a returned value has exactly \<open>size\<close> bytes
  (none for a negative \<open>size\<close>), so never fewer, and is the concatenation of the chunks
  read; every read asks for between 1 and 2048 bytes; and a read that returns no bytes
  ends the call with the \<^verbatim>\<open>RuntimeError\<close> "Socket connection broken on recv".
  The loop is a total function, so the call always ends in one of the two ways.
\<close>

theorem Client_recv_fixed_exact:
  assumes "recv_contract srecv"
      and "Client_recv (logged srecv) sz True (sk, []) = (r, (sk', log))"
  shows "(\<forall>data. r = Inr data \<longrightarrow> int (length data) = max 0 sz \<and> data = concat (map chunk_of log))
       \<and> (\<forall>(n, a) \<in> set log. 1 \<le> n \<and> n \<le> 2048)
       \<and> ((\<exists>n. (n, Inr []) \<in> set log) \<longrightarrow> r = Inl broken_on_recv)"
proof -
  have run: "recv_loop (logged srecv) sz [] 0 (sk, []) = (r, (sk', log))"
    using assms(2) by (simp add: Client_recv_def)
  have ex: "\<forall>data. r = Inr data \<longrightarrow> int (length data) = max 0 sz"
  proof (intro allI impI)
    fix data assume "r = Inr data"
    with run have "recv_loop (logged srecv) sz [] 0 (sk, []) = (Inr data, (sk', log))" by simp
    from recv_loop_exact[OF recv_contract_logged[OF assms(1)] _ _ this]
    show "int (length data) = max 0 sz" by simp
  qed
  have lg: "(\<forall>(n, a) \<in> set log. 1 \<le> n \<and> n \<le> 2048)
       \<and> ((\<exists>n. (n, Inr []) \<in> set log) \<longrightarrow> r = Inl broken_on_recv)
       \<and> (\<forall>d. r = Inr d \<longrightarrow> d = concat (map chunk_of log))"
    using recv_loop_log[OF _ _ run] by simp
  from ex lg show ?thesis by blast
qed

lemma demo_recv_contract: "recv_contract demo_recv"
  by (auto simp: recv_contract_def demo_recv_def)

theorem Client_recv_fixed_exact_witness:
  "recv_contract demo_recv
   \<and> Client_recv (logged demo_recv) 5 True ([1, 2, 3, 4, 5, 6, 7], []) =
       (Inr [1, 2, 3, 4, 5], ([6, 7], [(5, Inr [1, 2, 3]), (2, Inr [4, 5])]))
   \<and> int (length [1, 2, 3, 4, 5 :: 8 word]) = max 0 5"
proof -
  have run: "Client_recv (logged demo_recv) 5 True ([1, 2, 3, 4, 5, 6, 7], []) =
       (Inr [1, 2, 3, 4, 5], ([6, 7], [(5, Inr [1, 2, 3]), (2, Inr [4, 5])]))"
    by (simp add: Client_recv_def recv_loop.simps logged_def demo_recv_def)
  show ?thesis
    using Client_recv_fixed_exact [OF demo_recv_contract run] demo_recv_contract run by simp
qed

text \<open>
  When the write lock is not acquired, \<^verbatim>\<open>Client.send\<close> returns 0 and touches
  neither the socket nor the lock. Whether and for how long \<^verbatim>\<open>acquire\<close> waits for
  a given timeout is decided by the threading library.
\<close>

lemma Client_send_lock_not_acquired:
  "\<not> acquire timeout \<Longrightarrow> Client_send acquire ssend bs timeout ch = (Inr 0, ch)"
  by (simp add: Client_send_def)

text \<open>
  Claim C5. For a payload of \<open>N\<close> bytes on a socket that never reports more bytes than
  it was given, a value returned by \<^verbatim>\<open>Client.send\<close> is \<open>N\<close> when the write lock was
  acquired and 0 when it was not, never a count in between; and a write that reports
  zero bytes ends the call with the \<^verbatim>\<open>RuntimeError\<close> "Socket connection broken on
  send" instead of a count.
\<close>

theorem Client_send_all_or_nothing:
  assumes "send_contract ssend"
      and "Client_send acquire (logged ssend) bs timeout \<lparr>sock = (sk, []), send_lock_held = h\<rparr> = (r, ch')"
  shows "(\<forall>n. r = Inr n \<longrightarrow> (if acquire timeout then n = length bs else n = 0))
       \<and> ((\<exists>q. (q, Inr 0) \<in> set (snd (sock ch'))) \<longrightarrow> r = Inl broken_on_send)"
proof (cases "acquire timeout")
  case False
  with assms(2) show ?thesis by (auto simp: Client_send_def)
next
  case True
  obtain sk' log' where st: "sock ch' = (sk', log')" by (cases "sock ch'")
  have run: "send_loop (logged ssend) bs 0 (sk, []) = (r, (sk', log'))"
    using assms(2) True st by (auto simp: Client_send_def split: prod.splits)
  have a: "\<forall>n. r = Inr n \<longrightarrow> n = length bs"
  proof (intro allI impI)
    fix n assume "r = Inr n"
    with run have "send_loop (logged ssend) bs 0 (sk, []) = (Inr n, (sk', log'))" by simp
    from send_loop_total[OF send_contract_logged[OF assms(1)] _ this]
    show "n = length bs" by simp
  qed
  have b: "(\<exists>q. (q, Inr 0) \<in> set log') \<longrightarrow> r = Inl broken_on_send"
    using send_loop_zero_raises[OF _ run] by simp
  from a b True st show ?thesis by simp
qed

lemma demo_send_contract: "send_contract demo_send"
  by (auto simp: send_contract_def demo_send_def)

theorem Client_send_all_or_nothing_witness:
  "send_contract demo_send
   \<and> Client_send (\<lambda>t. True) (logged demo_send) [1, 2, 3] (-1) \<lparr>sock = (2, []), send_lock_held = False\<rparr> =
       (Inr 3, \<lparr>sock = (2, [([1, 2, 3], Inr 2), ([3], Inr 1)]), send_lock_held = False\<rparr>)
   \<and> (3::nat) = length [1, 2, 3 :: 8 word]"
proof -
  have run: "Client_send (\<lambda>t. True) (logged demo_send) [1, 2, 3] (-1) \<lparr>sock = (2, []), send_lock_held = False\<rparr> =
       (Inr 3, \<lparr>sock = (2, [([1, 2, 3], Inr 2), ([3], Inr 1)]), send_lock_held = False\<rparr>)"
    by (simp add: Client_send_def send_loop.simps logged_def demo_send_def)
  show ?thesis
    using Client_send_all_or_nothing [OF demo_send_contract run] demo_send_contract run by simp
qed

lemma Client_send_zero_write:
  "Client_send (\<lambda>t. True) (logged demo_send) [1, 2, 3] (-1) \<lparr>sock = (0, []), send_lock_held = False\<rparr> =
       (Inl broken_on_send, \<lparr>sock = (0, [([1, 2, 3], Inr 0)]), send_lock_held = False\<rparr>)"
  by (simp add: Client_send_def send_loop.simps logged_def demo_send_def)


section \<open>Properties of the server\<close>

lemma remove1_notin: "c \<notin> set xs \<Longrightarrow> remove1 c xs = xs"
  by (simp add: remove1_idem)

lemmas world_simps = emit_def with_srv_def

lemma unregister_found:
  assumes "selector_finds c (srv w)"
  shows "unregister c True w =
     (Inr (), with_srv (emit (EvUnregister c) w) ((srv w)\<lparr>recv_selector := recv_selector (srv w) - {c}\<rparr>))"
proof (cases "c \<in> recv_selector (srv w)")
  case True
  then show ?thesis
    by (simp add: unregister_def selector_unregister_def world_simps Let_def)
next
  case False
  with assms have v: "Client_fileno_valid (objects (srv w) c)" by (simp add: selector_finds_def)
  have "recv_selector (srv w) - {c} = recv_selector (srv w)" using False by blast
  with False v show ?thesis
    by (simp add: unregister_def selector_unregister_def world_simps Let_def)
qed


lemma disconnect_one_eq:
  assumes "selector_finds c (srv w)"
  shows "disconnect_one cb c reason w =
     (case handle_closed cb c reason (after_cleanup c (srv w)) of
        (r, s') \<Rightarrow>
          (case r of Inl e \<Rightarrow> Inl e | Inr v \<Rightarrow> Inr (),
           w\<lparr>srv := s', trace := trace w @ cleanup_events c reason (srv w)\<rparr>))"
proof (cases "c \<in> set (clients (srv w))")
  case True
  then show ?thesis
    by (auto simp: disconnect_one_def unregister_found[OF assms] world_simps
       close_client_def remove_client_def call_handle_closed_def after_cleanup_def
       cleanup_events_def Let_def split: prod.splits sum.splits)
next
  case False
  then show ?thesis
    by (auto simp: disconnect_one_def unregister_found[OF assms] world_simps
       close_client_def remove_client_def call_handle_closed_def after_cleanup_def
       cleanup_events_def Let_def remove1_notin split: prod.splits sum.splits)
qed


lemma disconnect_one_is_body:
  "disconnect_one cb c reason w = run_stmts cb c reason disconnect_body w"
  by (simp add: disconnect_one_def disconnect_body_def split: prod.splits sum.splits)

lemma disconnect_one_in_order:
  assumes "selector_finds c (srv w)"
  shows "trace (snd (disconnect cb (Single c) reason w)) =
     trace w @ [EvUnregister c, EvClose c]
       @ (if c \<in> set (clients (srv w)) then [EvRemove c] else [])
       @ [EvHandleClosed c reason]
   \<and> srv (snd (disconnect cb (Single c) reason w)) =
       snd (handle_closed cb c reason (after_cleanup c (srv w)))
   \<and> fst (disconnect cb (Single c) reason w) =
       (case fst (handle_closed cb c reason (after_cleanup c (srv w))) of
          Inl e \<Rightarrow> Inl e | Inr v \<Rightarrow> Inr ())"
proof -
  obtain r s' where h: "handle_closed cb c reason (after_cleanup c (srv w)) = (r, s')"
    by (cases "handle_closed cb c reason (after_cleanup c (srv w))")
  have d: "disconnect cb (Single c) reason w =
      (case r of Inl e \<Rightarrow> Inl e | Inr v \<Rightarrow> Inr (),
       w\<lparr>srv := s', trace := trace w @ cleanup_events c reason (srv w)\<rparr>)"
    by (simp add: disconnect_one_eq[OF assms] h)
  from d h show ?thesis by (simp add: cleanup_events_def)
qed

lemmas demo_defs = demo_world_def demo_server_def default_callbacks_def returning_callbacks_def
  raising_callbacks_def Client_init_def

lemmas op_defs = subthread_handle_accepted_def subthread_handle_readable_def register_def
  unregister_def selector_register_def selector_unregister_def Client_fileno_valid_def
  disconnect_one_def close_client_def
  remove_client_def call_handle_closed_def set_accepted_def emit_def with_srv_def
  caught_by_handshake_def Client_close_def sock_shutdown_def Let_def

text \<open>
  Claim C8 does not hold of the code. The handler in \<^verbatim>\<open>unregister\<close> is
  \<^verbatim>\<open>except KeyError\<close>, and the call in \<^verbatim>\<open>disconnect\<close> carries the comment
  "will not raise errors"; but for a connection that is not registered and whose socket
  is already closed the selector raises \<^verbatim>\<open>ValueError\<close>, which leaves
  \<^verbatim>\<open>disconnect\<close> before the close, the removal and the call of
  \<^verbatim>\<open>handle_closed\<close>. A second \<^verbatim>\<open>disconnect\<close> of a connection is such a call.
\<close>

theorem disconnect_raises_for_closed_client:
  "fst (disconnect default_callbacks (Single 1) (PyStr ''second'')
      (snd (disconnect default_callbacks (Single 1) (PyStr ''first'') demo_world))) =
     Inl (Exn ValueError ''Invalid file descriptor: -1'')
   \<and> trace (snd (disconnect default_callbacks (Single 1) (PyStr ''second'')
      (snd (disconnect default_callbacks (Single 1) (PyStr ''first'') demo_world)))) =
     [EvUnregister 1, EvClose 1, EvRemove 1, EvHandleClosed 1 (PyStr ''first''), EvUnregister 1]"
  by (simp add: op_defs demo_defs)



lemma handle_accepted_raises:
  "handle_incoming cb c (srv w) = (Inl e, s1) \<Longrightarrow>
   subthread_handle_accepted cb c w =
     (if caught_by_handshake e
      then disconnect cb (Single c) (PyStr (str_of_exn e)) (with_srv (emit (EvHandleIncoming c) w) s1)
      else (Inl e, with_srv (emit (EvHandleIncoming c) w) s1))"
  by (simp add: subthread_handle_accepted_def Let_def emit_def)

lemma handle_readable_raises:
  "handle_readable cb c (srv w) = (Inl e, s1) \<Longrightarrow>
   subthread_handle_readable cb c w =
     (if caught_by_handshake e
      then disconnect cb (Single c) (PyStr (str_of_exn e)) (with_srv (emit (EvHandleReadable c) w) s1)
      else (Inl e, with_srv (emit (EvHandleReadable c) w) s1))"
  by (simp add: subthread_handle_readable_def Let_def emit_def)






lemma closed_calls_Nil: "closed_calls c [] = []"
  by (simp add: closed_calls_def List.map_filter_def)

lemma closed_calls_Cons:
  "closed_calls c (e # es) = (case closed_reason c e of None \<Rightarrow> [] | Some r \<Rightarrow> [r]) @ closed_calls c es"
  by (simp add: closed_calls_def List.map_filter_def split: option.splits)







text \<open>
  Claim C3, amended. An exception raised by \<^verbatim>\<open>handle_incoming\<close> or
  \<^verbatim>\<open>handle_readable\<close> whose class is \<^verbatim>\<open>socket.error\<close> or \<^verbatim>\<open>RuntimeError\<close> is
  caught in the handshake, which then is exactly
  \<^verbatim>\<open>disconnect(client, str(e))\<close>; an exception of any other class leaves the
  handshake as it is, and no disconnect is made.
\<close>

theorem handshake_catches_socket_and_runtime_errors:
  "(handle_incoming cb c (srv w) = (Inl e, s1) \<longrightarrow>
      subthread_handle_accepted cb c w =
        (if exn_class e = SocketError \<or> exn_class e = RuntimeError
         then disconnect cb (Single c) (PyStr (str_of_exn e)) (with_srv (emit (EvHandleIncoming c) w) s1)
         else (Inl e, with_srv (emit (EvHandleIncoming c) w) s1)))
   \<and> (handle_readable cb c (srv w) = (Inl e, s1) \<longrightarrow>
      subthread_handle_readable cb c w =
        (if exn_class e = SocketError \<or> exn_class e = RuntimeError
         then disconnect cb (Single c) (PyStr (str_of_exn e)) (with_srv (emit (EvHandleReadable c) w) s1)
         else (Inl e, with_srv (emit (EvHandleReadable c) w) s1)))"
  using handle_accepted_raises [of cb c w e s1] handle_readable_raises [of cb c w e s1]
  by (simp add: caught_by_handshake_def)

theorem handshake_catches_socket_and_runtime_errors_witness:
  "trace (snd (subthread_handle_readable (raising_callbacks (Exn RuntimeError ''Socket connection broken on recv'')) 1 demo_world)) =
     [EvHandleReadable 1, EvUnregister 1, EvClose 1, EvRemove 1,
      EvHandleClosed 1 (PyStr ''Socket connection broken on recv'')]
   \<and> fst (subthread_handle_readable (raising_callbacks (Exn RuntimeError ''Socket connection broken on recv'')) 1 demo_world) = Inr ()"
proof -
  let ?cb = "raising_callbacks (Exn RuntimeError ''Socket connection broken on recv'')"
  have a: "handle_readable ?cb 1 (srv demo_world) = (Inl (Exn RuntimeError ''Socket connection broken on recv''), srv demo_world)"
    by (simp add: demo_defs)
  from handshake_catches_socket_and_runtime_errors [of ?cb 1 demo_world "Exn RuntimeError ''Socket connection broken on recv''" "srv demo_world"] a
  have eq: "subthread_handle_readable ?cb 1 demo_world =
      disconnect ?cb (Single 1) (PyStr ''Socket connection broken on recv'') (with_srv (emit (EvHandleReadable 1) demo_world) (srv demo_world))"
    by simp
  show ?thesis
    by (simp only: eq) (simp add: op_defs demo_defs)
qed

text \<open>
  Claim C3 as stated fails: a \<^verbatim>\<open>ValueError\<close> raised by the callback leaves both
  handshakes, and the connection is neither closed nor reported to
  \<^verbatim>\<open>handle_closed\<close>.
\<close>

theorem handshake_lets_ValueError_through:
  "fst (subthread_handle_accepted (raising_callbacks (Exn ValueError ''bad frame'')) 1 demo_world) =
     Inl (Exn ValueError ''bad frame'')
   \<and> trace (snd (subthread_handle_accepted (raising_callbacks (Exn ValueError ''bad frame'')) 1 demo_world)) =
     [EvHandleIncoming 1]
   \<and> fst (subthread_handle_readable (raising_callbacks (Exn ValueError ''bad frame'')) 1 demo_world) =
     Inl (Exn ValueError ''bad frame'')
   \<and> trace (snd (subthread_handle_readable (raising_callbacks (Exn ValueError ''bad frame'')) 1 demo_world)) =
     [EvHandleReadable 1]"
  by (simp add: op_defs demo_defs)












text \<open>
  A thread that runs the four statements without another thread in between has run
  \<^verbatim>\<open>disconnect(client, reason)\<close>.
\<close>

lemma thread_alone_is_disconnect:
  "snd (interleave cb [ThreadA, ThreadA, ThreadA, ThreadA] (calls_disconnect c reason, b) w) =
     snd (disconnect cb (Single c) reason w)"
  by (simp add: calls_disconnect_def disconnect_body_def thread_step_def disconnect_one_def
      split: prod.splits sum.splits)

text \<open>
  A second \<^verbatim>\<open>disconnect\<close> that starts after the first has ended is stopped by the
  selector's \<^verbatim>\<open>ValueError\<close>, so it does not notify again.
\<close>

lemma second_disconnect_does_not_notify:
  "closed_calls 1 (trace (snd (disconnect default_callbacks (Single 1) (PyStr ''second'')
      (snd (disconnect default_callbacks (Single 1) (PyStr ''first'') demo_world))))) =
     [PyStr ''first'']"
  by (simp add: op_defs demo_defs closed_calls_Cons closed_calls_Nil)

text \<open>
  Claim C1 does not hold of the code: \<^verbatim>\<open>disconnect\<close> never reads or sets
  \<^verbatim>\<open>close_handled\<close>, and nothing else keeps two calls of \<^verbatim>\<open>disconnect\<close> for
  one connection apart. When \<^verbatim>\<open>stop()\<close> and a worker whose callback has returned
  \<^verbatim>\<open>False\<close> disconnect the same connection at the same time, and both have passed
  \<^verbatim>\<open>unregister\<close> before either closes the socket, both run to the end without an
  exception and \<^verbatim>\<open>handle_closed\<close> is called twice for the one connection.
\<close>

theorem handle_closed_called_twice:
  "(case interleave default_callbacks
           [ThreadA, ThreadB, ThreadA, ThreadB, ThreadA, ThreadB, ThreadA, ThreadB]
           (calls_disconnect 1 (PyStr ''Server shutting down''), calls_disconnect 1 (PyBool False))
           demo_world of
      ((a, b), w') \<Rightarrow>
        closed_calls 1 (trace w') = [PyStr ''Server shutting down'', PyBool False]
        \<and> trace w' =
            [EvUnregister 1, EvUnregister 1, EvClose 1, EvClose 1, EvRemove 1,
             EvHandleClosed 1 (PyStr ''Server shutting down''), EvHandleClosed 1 (PyBool False)]
        \<and> th_todo a = [] \<and> th_raised a = None \<and> th_todo b = [] \<and> th_raised b = None)"
  by (simp add: calls_disconnect_def disconnect_body_def thread_step_def op_defs demo_defs
      closed_calls_Cons closed_calls_Nil)

section \<open>Properties of the interleaved server\<close>




























end
